theory Spec2Isabelle
  imports Main "HOL-Library.Sublist"
begin

section \<open>Values of the Python program\<close>

text \<open>
  The program is the Streamlit script \<^verbatim>\<open>src/app.py\<close>. Everything it receives from the
  server is the result of \<^verbatim>\<open>response.json()\<close>, a Python value built from JSON: a dict
  (kept as an association list in key order; the parser leaves no duplicate key), a list,
  a str, an int, a float (kept as its literal, no arithmetic is done on it), a bool or
  None. Strings are byte lists; a character outside ASCII is written as its UTF-8 bytes.
\<close>

datatype json =
    JNull
  | JBool bool
  | JNum int
  | JFloat string
  | JStr string
  | JArr "json list"
  | JObj "(string \<times> json) list"

text \<open>
  Exceptions are values. The class decides which \<^verbatim>\<open>except\<close> clause catches it, the
  string is what \<^verbatim>\<open>str(e)\<close> gives. \<^verbatim>\<open>requests.exceptions.ConnectTimeout\<close> is a subclass
  of both \<^verbatim>\<open>Timeout\<close> and \<^verbatim>\<open>ConnectionError\<close>.
\<close>

datatype exn_class =
    ReadTimeout
  | ConnectTimeout
  | ConnectionError
  | JSONDecodeError
  | KeyError
  | IndexError
  | TypeError
  | AttributeError
  | PlainException
  | OtherException

datatype exn = Exn exn_class string

fun exn_str :: "exn \<Rightarrow> string" where
  "exn_str (Exn c m) = m"

fun is_Timeout :: "exn \<Rightarrow> bool" where
  "is_Timeout (Exn c m) = (c = ReadTimeout \<or> c = ConnectTimeout)"

fun is_ConnectionError :: "exn \<Rightarrow> bool" where
  "is_ConnectionError (Exn c m) = (c = ConnectionError \<or> c = ConnectTimeout)"

subsection \<open>Decimal rendering of integers\<close>

definition digit :: "nat \<Rightarrow> char" where
  "digit d = ''0123456789'' ! d"

fun str_of_nat :: "nat \<Rightarrow> string" where
  "str_of_nat n = (if n < 10 then [digit n] else str_of_nat (n div 10) @ [digit (n mod 10)])"

definition str_of_int :: "int \<Rightarrow> string" where
  "str_of_int i = (if i < 0 then ''-'' @ str_of_nat (nat (- i)) else str_of_nat (nat i))"

subsection \<open>The operations of Python the script applies to server data\<close>

text \<open>
  \<^verbatim>\<open>str(v)\<close> is \<^verbatim>\<open>v\<close> itself on a str and \<^verbatim>\<open>repr(v)\<close> on every other value; \<^verbatim>\<open>repr\<close> is
  the interpreter's and is a parameter here, as are \<^verbatim>\<open>json.dumps\<close> and its indented form.
\<close>

record pylib =
  repr :: "json \<Rightarrow> string"
  json_dumps :: "json \<Rightarrow> string"
  json_dumps_indent :: "nat \<Rightarrow> json \<Rightarrow> string"

fun py_str :: "pylib \<Rightarrow> json \<Rightarrow> string" where
  "py_str L (JStr s) = s"
| "py_str L v = repr L v"

fun type_name :: "json \<Rightarrow> string" where
  "type_name JNull = ''NoneType''"
| "type_name (JBool b) = ''bool''"
| "type_name (JNum n) = ''int''"
| "type_name (JFloat f) = ''float''"
| "type_name (JStr s) = ''str''"
| "type_name (JArr xs) = ''list''"
| "type_name (JObj kvs) = ''dict''"

fun starts_with :: "string \<Rightarrow> string \<Rightarrow> bool" where
  "starts_with s p = (take (length p) s = p)"

fun contains_str :: "string \<Rightarrow> string \<Rightarrow> bool" where
  "contains_str [] p = (p = [])"
| "contains_str (c # cs) p = (starts_with (c # cs) p \<or> contains_str cs p)"

text \<open>\<^verbatim>\<open>k in v\<close> for a str \<^verbatim>\<open>k\<close>: key membership, element membership, substring, or TypeError.\<close>

fun py_in :: "string \<Rightarrow> json \<Rightarrow> exn + bool" where
  "py_in k (JObj kvs) = Inr (k \<in> set (map fst kvs))"
| "py_in k (JArr xs) = Inr (JStr k \<in> set xs)"
| "py_in k (JStr s) = Inr (contains_str s k)"
| "py_in k v = Inl (Exn TypeError (''argument of type '' @ [CHR 0x27] @ type_name v @ [CHR 0x27] @ '' is not iterable''))"

text \<open>\<^verbatim>\<open>v[k]\<close> for a str \<^verbatim>\<open>k\<close>; \<^verbatim>\<open>str(KeyError(k))\<close> is the repr of the key.\<close>

fun py_getitem :: "pylib \<Rightarrow> json \<Rightarrow> string \<Rightarrow> exn + json" where
  "py_getitem L (JObj kvs) k =
     (case map_of kvs k of
        None \<Rightarrow> Inl (Exn KeyError (repr L (JStr k)))
      | Some v \<Rightarrow> Inr v)"
| "py_getitem L (JArr xs) k = Inl (Exn TypeError ''list indices must be integers or slices, not str'')"
| "py_getitem L (JStr s) k =
     Inl (Exn TypeError (''string indices must be integers, not '' @ [CHR 0x27] @ ''str'' @ [CHR 0x27]))"
| "py_getitem L v k =
     Inl (Exn TypeError ([CHR 0x27] @ type_name v @ [CHR 0x27] @ '' object is not subscriptable''))"

text \<open>\<^verbatim>\<open>v[0]\<close>; a dict parsed from JSON has only str keys, so \<^verbatim>\<open>d[0]\<close> is a KeyError.\<close>

fun py_getitem0 :: "pylib \<Rightarrow> json \<Rightarrow> exn + json" where
  "py_getitem0 L (JArr xs) =
     (case xs of [] \<Rightarrow> Inl (Exn IndexError ''list index out of range'') | x # _ \<Rightarrow> Inr x)"
| "py_getitem0 L (JStr s) =
     (case s of [] \<Rightarrow> Inl (Exn IndexError ''string index out of range'') | c # _ \<Rightarrow> Inr (JStr [c]))"
| "py_getitem0 L (JObj kvs) = Inl (Exn KeyError (repr L (JNum 0)))"
| "py_getitem0 L v =
     Inl (Exn TypeError ([CHR 0x27] @ type_name v @ [CHR 0x27] @ '' object is not subscriptable''))"

text \<open>\<^verbatim>\<open>v.get(k, default)\<close>: only a dict has the method.\<close>

fun py_get :: "json \<Rightarrow> string \<Rightarrow> json \<Rightarrow> exn + json" where
  "py_get (JObj kvs) k d = Inr (case map_of kvs k of None \<Rightarrow> d | Some v \<Rightarrow> v)"
| "py_get v k d =
     Inl (Exn AttributeError ([CHR 0x27] @ type_name v @ [CHR 0x27] @ '' object has no attribute ''
            @ [CHR 0x27] @ ''get'' @ [CHR 0x27]))"

text \<open>\<^verbatim>\<open>s.upper()\<close> on the ASCII letters the script applies it to.\<close>

definition upper_char :: "char \<Rightarrow> char" where
  "upper_char c =
     (case map_of (zip ''abcdefghijklmnopqrstuvwxyz'' ''ABCDEFGHIJKLMNOPQRSTUVWXYZ'') c of
        None \<Rightarrow> c
      | Some u \<Rightarrow> u)"

definition upper :: "string \<Rightarrow> string" where
  "upper s = map upper_char s"

section \<open>Session state and the world around the script\<close>

text \<open>
  A chat message is the dict the script appends to \<^verbatim>\<open>st.session_state.messages\<close>. The
  user message has no \<^verbatim>\<open>is_error\<close> key (\<open>None\<close>); the renderer reads it with default False.
  The content of an assistant message is whatever the server put at
  \<^verbatim>\<open>result['content'][0]['text']\<close>, so it is a Python value, a str in the intended case.
\<close>

record message =
  role :: string
  content :: json
  timestamp :: string
  is_error :: "bool option"

record debug_log =
  log_time :: string
  log_type :: string
  log_message :: string

datatype notice = StError string | StSuccess string | StWarning string

text \<open>
  The state: the four entries of \<^verbatim>\<open>st.session_state\<close>, and what the script has done to the
  outside so far: the lines printed, the calls of \<^verbatim>\<open>requests.post\<close> (url, body, timeout in
  seconds), the notices shown with \<^verbatim>\<open>st.error\<close>, \<^verbatim>\<open>st.success\<close>, \<^verbatim>\<open>st.warning\<close>, and the
  number of times the clock has been read.
\<close>

record app =
  messages :: "message list"
  session_id :: string
  connection_status :: string
  debug_logs :: "debug_log list"
  stdout :: "string list"
  post_calls :: "(string \<times> json \<times> nat) list"
  shown :: "notice list"
  clock_reads :: nat

record response =
  status_code :: int
  body_text :: string
  parsed :: "exn + json"

datatype http_outcome = Raised exn | Responded response

text \<open>
  What the script reads from outside: the clock (the n-th reading, as
  \<^verbatim>\<open>int(time.time() * 1000)\<close> and as \<^verbatim>\<open>datetime.now().strftime(fmt)\<close>), the outcome of
  \<^verbatim>\<open>requests.post\<close>, and the interpreter's renderings. \<open>parsed\<close> is the outcome of
  \<^verbatim>\<open>response.json()\<close>.
\<close>

record env =
  time_ms :: "nat \<Rightarrow> int"
  strftime :: "string \<Rightarrow> nat \<Rightarrow> string"
  http_post :: "string \<Rightarrow> json \<Rightarrow> nat \<Rightarrow> http_outcome"
  lib :: pylib

datatype provider = openai | anthropic

fun provider_str :: "provider \<Rightarrow> string" where
  "provider_str openai = ''openai''"
| "provider_str anthropic = ''anthropic''"

record config =
  server_url :: string
  provider :: provider
  model :: string
  use_memory :: bool
  show_debug :: bool

definition initial_state :: "env \<Rightarrow> app" where
  "initial_state E =
     \<lparr> messages = [],
       session_id = ''session-'' @ str_of_int (time_ms E 0),
       connection_status = ''unknown'',
       debug_logs = [],
       stdout = [],
       post_calls = [],
       shown = [],
       clock_reads = 1 \<rparr>"

section \<open>Helper functions of the script\<close>

definition add_debug_log :: "env \<Rightarrow> string \<Rightarrow> string \<Rightarrow> app \<Rightarrow> app" where
  "add_debug_log E msg ty s =
     (let ts = strftime E ''%H:%M:%S'' (clock_reads s)
      in s\<lparr> clock_reads := Suc (clock_reads s),
            debug_logs := debug_logs s @ [\<lparr> log_time = ts, log_type = ty, log_message = msg \<rparr>],
            stdout := stdout s @ [''['' @ upper ty @ ''] '' @ msg] \<rparr>)"

definition tools_call_body :: "int \<Rightarrow> string \<Rightarrow> json \<Rightarrow> json" where
  "tools_call_body rid tool_name arguments =
     JObj [(''jsonrpc'', JStr ''2.0''),
           (''id'', JNum rid),
           (''method'', JStr ''tools/call''),
           (''params'', JObj [(''name'', JStr tool_name), (''arguments'', arguments)])]"

text \<open>The \<^verbatim>\<open>try\<close> block of \<^verbatim>\<open>call_mcp_tool\<close>: \<open>Inl\<close> is the exception that leaves it.\<close>

definition call_mcp_tool_try :: "env \<Rightarrow> string \<Rightarrow> string \<Rightarrow> json \<Rightarrow> app \<Rightarrow> (exn + json) \<times> app" where
  "call_mcp_tool_try E url tool_name arguments s0 =
     (let request_body = tools_call_body (time_ms E (clock_reads s0)) tool_name arguments;
          s1 = s0\<lparr> clock_reads := Suc (clock_reads s0) \<rparr>;
          s2 = add_debug_log E (''Calling tool: '' @ tool_name) ''info'' s1;
          s3 = add_debug_log E (''Request: '' @ json_dumps_indent (lib E) 2 request_body) ''info'' s2;
          s4 = s3\<lparr> post_calls := post_calls s3 @ [(url, request_body, 30)] \<rparr>
      in case http_post E url request_body 30 of
           Raised e \<Rightarrow> (Inl e, s4)
         | Responded r \<Rightarrow>
             (let s5 = add_debug_log E (''Response status: '' @ str_of_int (status_code r)) ''info'' s4;
                  s6 = add_debug_log E (''Response: '' @ body_text r) ''info'' s5
              in case parsed r of
                   Inl e \<Rightarrow> (Inl e, s6)
                 | Inr data \<Rightarrow>
                     (case py_in ''error'' data of
                        Inl e \<Rightarrow> (Inl e, s6)
                      | Inr True \<Rightarrow>
                          (case py_getitem (lib E) data ''error'' of
                             Inl e \<Rightarrow> (Inl e, s6)
                           | Inr err \<Rightarrow>
                               (case py_get err ''message'' (JStr (py_str (lib E) err)) of
                                  Inl e \<Rightarrow> (Inl e, s6)
                                | Inr m \<Rightarrow> (Inl (Exn PlainException (py_str (lib E) m)), s6)))
                      | Inr False \<Rightarrow> (py_getitem (lib E) data ''result'', s6))))"

text \<open>The three \<^verbatim>\<open>except\<close> clauses, in the order of the source.\<close>

definition call_mcp_tool_except :: "exn \<Rightarrow> exn" where
  "call_mcp_tool_except e =
     (if is_Timeout e then Exn PlainException ''Request timed out. The server took too long to respond.''
      else if is_ConnectionError e then Exn PlainException ''Connection failed. Check your server URL.''
      else Exn PlainException (''Error: '' @ exn_str e))"

definition call_mcp_tool :: "env \<Rightarrow> string \<Rightarrow> string \<Rightarrow> json \<Rightarrow> app \<Rightarrow> (exn + json) \<times> app" where
  "call_mcp_tool E url tool_name arguments s =
     (case call_mcp_tool_try E url tool_name arguments s of
        (Inr v, s') \<Rightarrow> (Inr v, s')
      | (Inl e, s') \<Rightarrow> (Inl (call_mcp_tool_except e), s'))"

definition initialize_body :: json where
  "initialize_body =
     JObj [(''jsonrpc'', JStr ''2.0''), (''id'', JNum 1), (''method'', JStr ''initialize''), (''params'', JObj [])]"

text \<open>The \<^verbatim>\<open>try\<close> block of \<^verbatim>\<open>test_connection\<close>.\<close>

definition test_connection_try :: "env \<Rightarrow> string \<Rightarrow> app \<Rightarrow> (exn + bool \<times> string) \<times> app" where
  "test_connection_try E url s0 =
     (let s1 = add_debug_log E (''Testing connection to: '' @ url) ''info'' s0;
          s2 = s1\<lparr> post_calls := post_calls s1 @ [(url, initialize_body, 10)] \<rparr>
      in case http_post E url initialize_body 10 of
           Raised e \<Rightarrow> (Inl e, s2)
         | Responded r \<Rightarrow>
             (let s3 = add_debug_log E (''Response status: '' @ str_of_int (status_code r)) ''info'' s2
              in case parsed r of
                   Inl e \<Rightarrow> (Inl e, s3)
                 | Inr data \<Rightarrow>
                     (case py_in ''error'' data of
                        Inl e \<Rightarrow> (Inl e, s3)
                      | Inr True \<Rightarrow>
                          (case py_getitem (lib E) data ''error'' of
                             Inl e \<Rightarrow> (Inl e, s3)
                           | Inr err \<Rightarrow>
                               (let s4 = add_debug_log E (''Server error: '' @ json_dumps (lib E) err) ''error'' s3
                                in case py_get err ''message'' (JStr ''Unknown error'') of
                                     Inl e \<Rightarrow> (Inl e, s4)
                                   | Inr m \<Rightarrow> (Inr (False, ''Server error: '' @ py_str (lib E) m), s4)))
                      | Inr False \<Rightarrow>
                          (case py_in ''result'' data of
                             Inl e \<Rightarrow> (Inl e, s3)
                           | Inr True \<Rightarrow>
                               (case py_getitem (lib E) data ''result'' of
                                  Inl e \<Rightarrow> (Inl e, s3)
                                | Inr res \<Rightarrow>
                                    (case py_get res ''serverInfo'' (JObj []) of
                                       Inl e \<Rightarrow> (Inl e, s3)
                                     | Inr info \<Rightarrow>
                                         (case py_get info ''name'' (JStr ''Unknown'') of
                                            Inl e \<Rightarrow> (Inl e, s3)
                                          | Inr server_name \<Rightarrow>
                                              (let s4 = add_debug_log E
                                                     ([CHR 0xE2, CHR 0x9C, CHR 0x93] @ '' Connection successful! Server: ''
                                                        @ py_str (lib E) server_name) ''success'' s3
                                               in (Inr (True, ''Connected to '' @ py_str (lib E) server_name), s4)))))
                           | Inr False \<Rightarrow> (Inr (False, ''Unexpected response format''), s3)))))"

definition test_connection :: "env \<Rightarrow> string \<Rightarrow> app \<Rightarrow> (bool \<times> string) \<times> app" where
  "test_connection E url s =
     (case test_connection_try E url s of
        (Inr r, s') \<Rightarrow> (r, s')
      | (Inl e, s') \<Rightarrow> ((False, exn_str e), add_debug_log E (''Connection failed: '' @ exn_str e) ''error'' s'))"

section \<open>The handlers of the script\<close>

text \<open>
  One run of the script serves one event. Each handler below is the block of the script
  under the corresponding \<^verbatim>\<open>if\<close>; \<^verbatim>\<open>st.rerun()\<close> ends the run.
\<close>

definition chat_arguments :: "config \<Rightarrow> string \<Rightarrow> app \<Rightarrow> string \<times> json" where
  "chat_arguments cfg user_input s =
     (if use_memory cfg then
        (''conversation_with_memory'',
         JObj [(''message'', JStr user_input),
               (''sessionId'', JStr (session_id s)),
               (''provider'', JStr (provider_str (provider cfg)))])
      else
        (''chat'',
         JObj [(''message'', JStr user_input),
               (''provider'', JStr (provider_str (provider cfg))),
               (''model'', JStr (model cfg))]))"

text \<open>\<^verbatim>\<open>result['content'][0]['text']\<close>\<close>

definition extract_text :: "pylib \<Rightarrow> json \<Rightarrow> exn + json" where
  "extract_text L result =
     (case py_getitem L result ''content'' of
        Inl e \<Rightarrow> Inl e
      | Inr c \<Rightarrow>
          (case py_getitem0 L c of
             Inl e \<Rightarrow> Inl e
           | Inr c0 \<Rightarrow> py_getitem L c0 ''text''))"

definition append_message :: "message \<Rightarrow> app \<Rightarrow> app" where
  "append_message m s = s\<lparr> messages := messages s @ [m] \<rparr>"

text \<open>\<^verbatim>\<open>datetime.now().strftime('%I:%M %p')\<close>: one reading of the clock.\<close>

definition read_clock_IMp :: "env \<Rightarrow> app \<Rightarrow> string \<times> app" where
  "read_clock_IMp E s =
     (strftime E ''%I:%M %p'' (clock_reads s), s\<lparr> clock_reads := Suc (clock_reads s) \<rparr>)"

definition error_content :: "exn \<Rightarrow> json" where
  "error_content e =
     JStr (''Error: '' @ exn_str e @ [CHR 0x0A, CHR 0x0A] @ ''Please check your server URL and API keys.'')"

text \<open>The \<^verbatim>\<open>try\<close> block of the chat turn, after the user message has been appended.\<close>

definition chat_turn_try :: "env \<Rightarrow> config \<Rightarrow> string \<Rightarrow> app \<Rightarrow> (exn + unit) \<times> app" where
  "chat_turn_try E cfg user_input s =
     (case chat_arguments cfg user_input s of
        (tool_name, arguments) \<Rightarrow>
          (case call_mcp_tool E (server_url cfg) tool_name arguments s of
             (Inl e, s1) \<Rightarrow> (Inl e, s1)
           | (Inr result, s1) \<Rightarrow>
               (case extract_text (lib E) result of
                  Inl e \<Rightarrow> (Inl e, s1)
                | Inr response_text \<Rightarrow>
                    (case read_clock_IMp E s1 of
                       (ts, s2) \<Rightarrow>
                         (Inr (),
                          append_message
                            \<lparr> role = ''assistant'', content = response_text,
                              timestamp = ts, is_error = Some False \<rparr> s2)))))"

definition validation_text :: string where
  "validation_text =
     [CHR 0xE2, CHR 0x9A, CHR 0xA0, CHR 0xEF, CHR 0xB8, CHR 0x8F]
       @ '' Please configure your MCP Server URL in the sidebar first!''"

text \<open>
  The block under \<^verbatim>\<open>if user_input:\<close>. \<^verbatim>\<open>st.chat_input\<close> gives None when nothing was
  submitted; None and the empty string are both false.
\<close>

definition on_user_input :: "env \<Rightarrow> config \<Rightarrow> string option \<Rightarrow> app \<Rightarrow> app" where
  "on_user_input E cfg inp s =
     (case inp of
        None \<Rightarrow> s
      | Some user_input \<Rightarrow>
          if user_input = [] then s
          else if server_url cfg = [] then s\<lparr> shown := shown s @ [StError validation_text] \<rparr>
          else
            (case read_clock_IMp E s of
               (ts, s1) \<Rightarrow>
                 (let s2 = append_message
                             \<lparr> role = ''user'', content = JStr user_input,
                               timestamp = ts, is_error = None \<rparr> s1
                  in case chat_turn_try E cfg user_input s2 of
                       (Inr u, s3) \<Rightarrow> s3
                     | (Inl e, s3) \<Rightarrow>
                         (case read_clock_IMp E s3 of
                            (ts', s4) \<Rightarrow>
                              append_message
                                \<lparr> role = ''assistant'', content = error_content e,
                                  timestamp = ts', is_error = Some True \<rparr> s4))))"

text \<open>The Test Connection button.\<close>

definition on_test_connection :: "env \<Rightarrow> config \<Rightarrow> app \<Rightarrow> app" where
  "on_test_connection E cfg s =
     (if server_url cfg \<noteq> [] then
        (case test_connection E (server_url cfg) s of
           ((success, msg), s1) \<Rightarrow>
             if success then s1\<lparr> connection_status := ''connected'', shown := shown s1 @ [StSuccess msg] \<rparr>
             else s1\<lparr> connection_status := ''error'', shown := shown s1 @ [StError msg] \<rparr>)
      else s\<lparr> shown := shown s @ [StWarning ''Please enter a server URL first''] \<rparr>)"

text \<open>The Clear Chat and New Session buttons.\<close>

definition on_clear_chat :: "app \<Rightarrow> app" where
  "on_clear_chat s = s\<lparr> messages := [] \<rparr>"

definition on_new_session :: "env \<Rightarrow> app \<Rightarrow> app" where
  "on_new_session E s =
     s\<lparr> messages := [],
        session_id := ''session-'' @ str_of_int (time_ms E (clock_reads s)),
        clock_reads := Suc (clock_reads s) \<rparr>"

subsection \<open>The debug log view\<close>

text \<open>\<^verbatim>\<open>xs[-n:]\<close>: the last \<open>n\<close> elements, all of them when there are fewer.\<close>

definition last_n :: "nat \<Rightarrow> 'a list \<Rightarrow> 'a list" where
  "last_n n xs = drop (length xs - n) xs"

definition log_color :: "string \<Rightarrow> string" where
  "log_color ty =
     (case map_of
        [(''error'', [CHR 0xF0, CHR 0x9F, CHR 0x94, CHR 0xB4]),
         (''success'', [CHR 0xF0, CHR 0x9F, CHR 0x9F, CHR 0xA2]),
         (''info'', [CHR 0xF0, CHR 0x9F, CHR 0x94, CHR 0xB5])] ty of
        None \<Rightarrow> [CHR 0xE2, CHR 0x9A, CHR 0xAA]
      | Some c \<Rightarrow> c)"

definition render_log :: "debug_log \<Rightarrow> string" where
  "render_log l = log_color (log_type l) @ '' ['' @ log_time l @ ''] '' @ log_message l"

text \<open>
  The entries the debug section reads, and the lines it writes with \<^verbatim>\<open>st.text\<close>. Nothing is
  written when the toggle is off, when the log is empty, or in the run in which the Clear
  Debug Logs button was pressed (that run empties the log and ends).
\<close>

definition debug_view :: "app \<Rightarrow> debug_log list" where
  "debug_view s = last_n 20 (debug_logs s)"

definition debug_section :: "config \<Rightarrow> bool \<Rightarrow> app \<Rightarrow> string list \<times> app" where
  "debug_section cfg clear_pressed s =
     (if show_debug cfg \<and> length (debug_logs s) > 0 then
        (if clear_pressed then ([], s\<lparr> debug_logs := [] \<rparr>)
         else (map render_log (debug_view s), s))
      else ([], s))"

section \<open>Concrete worlds for evaluating the script\<close>

text \<open>
  A library whose renderings are fixed placeholders, a world whose clock is given and in
  which every \<^verbatim>\<open>requests.post\<close> has the same given outcome, and a configuration.
\<close>

definition demo_lib :: pylib where
  "demo_lib = \<lparr> repr = (\<lambda>v. ''<repr>''), json_dumps = (\<lambda>v. ''<json>''), json_dumps_indent = (\<lambda>n v. ''<json>'') \<rparr>"

definition demo_env :: "(nat \<Rightarrow> int) \<Rightarrow> http_outcome \<Rightarrow> env" where
  "demo_env clock out =
     \<lparr> time_ms = clock, strftime = (\<lambda>fmt n. fmt), http_post = (\<lambda>u b t. out), lib = demo_lib \<rparr>"

definition demo_config :: "string \<Rightarrow> bool \<Rightarrow> config" where
  "demo_config url mem =
     \<lparr> server_url = url, provider = openai, model = ''gpt-3.5-turbo'', use_memory = mem, show_debug = True \<rparr>"

definition json_response :: "int \<Rightarrow> string \<Rightarrow> json \<Rightarrow> http_outcome" where
  "json_response code btext v = Responded \<lparr> status_code = code, body_text = btext, parsed = Inr v \<rparr>"

definition ticking :: "nat \<Rightarrow> int" where
  "ticking n = 1700000000000 + int n"

definition frozen_clock :: "nat \<Rightarrow> int" where
  "frozen_clock n = 1700000000000"

definition no_server :: http_outcome where
  "no_server = Raised (Exn ConnectionError ''connection refused'')"




definition bad_key_response :: http_outcome where
  "bad_key_response =
     json_response 200 ''(body)'' (JObj [(''error'', JObj [(''message'', JStr ''bad key'')])])"





text \<open>A sequence of appends to the debug log, each a message and a type.\<close>

definition add_debug_logs :: "env \<Rightarrow> (string \<times> string) list \<Rightarrow> app \<Rightarrow> app" where
  "add_debug_logs E entries s = foldl (\<lambda>s' (msg, ty). add_debug_log E msg ty s') s entries"

section \<open>Decimal rendering is injective\<close>

declare str_of_nat.simps [simp del]

lemma str_of_nat_nonempty: "str_of_nat n \<noteq> []"
  by (subst str_of_nat.simps) simp

lemma digit_inj: "a < 10 \<Longrightarrow> b < 10 \<Longrightarrow> digit a = digit b \<Longrightarrow> a = b"
proof -
  assume a: "a < 10" and b: "b < 10" and e: "digit a = digit b"
  have d: "distinct ''0123456789''" by simp
  have "a < length ''0123456789''" "b < length ''0123456789''" using a b by simp_all
  with d e show "a = b" unfolding digit_def by (simp only: nth_eq_iff_index_eq)
qed

lemma digit_not_minus: "d < 10 \<Longrightarrow> digit d \<noteq> CHR ''-''"
proof -
  assume "d < 10"
  then have "digit d \<in> set ''0123456789''" unfolding digit_def by (intro nth_mem) simp
  then show ?thesis by auto
qed

lemma str_of_nat_digits: "c \<in> set (str_of_nat n) \<Longrightarrow> c \<noteq> CHR ''-''"
proof (induction n rule: str_of_nat.induct)
  case (1 n)
  show ?case
  proof (cases "n < 10")
    case True
    with 1(2) show ?thesis by (subst (asm) str_of_nat.simps) (simp add: digit_not_minus)
  next
    case False
    from 1(2) have "c \<in> set (str_of_nat (n div 10)) \<or> c = digit (n mod 10)"
      by (subst (asm) str_of_nat.simps) (auto simp: False)
    then show ?thesis using 1(1)[OF False] digit_not_minus[of "n mod 10"] by auto
  qed
qed

lemma str_of_nat_inj: "str_of_nat n = str_of_nat m \<Longrightarrow> n = m"
proof (induction n arbitrary: m rule: str_of_nat.induct)
  case (1 n)
  have en: "str_of_nat n = (if n < 10 then [digit n] else str_of_nat (n div 10) @ [digit (n mod 10)])"
    by (rule str_of_nat.simps)
  have em: "str_of_nat m = (if m < 10 then [digit m] else str_of_nat (m div 10) @ [digit (m mod 10)])"
    by (rule str_of_nat.simps)
  show ?case
  proof (cases "n < 10")
    case n: True
    show ?thesis
    proof (cases "m < 10")
      case True
      with n 1(2) en em show ?thesis by (simp add: digit_inj)
    next
      case False
      with n 1(2) en em have "[digit n] = str_of_nat (m div 10) @ [digit (m mod 10)]" by simp
      then have "str_of_nat (m div 10) = []" by simp
      then show ?thesis using str_of_nat_nonempty by blast
    qed
  next
    case n: False
    show ?thesis
    proof (cases "m < 10")
      case True
      with n 1(2) en em have "str_of_nat (n div 10) @ [digit (n mod 10)] = [digit m]" by simp
      then have "str_of_nat (n div 10) = []" by simp
      then show ?thesis using str_of_nat_nonempty by blast
    next
      case False
      with n 1(2) en em
      have "str_of_nat (n div 10) @ [digit (n mod 10)] = str_of_nat (m div 10) @ [digit (m mod 10)]"
        by simp
      then have a: "str_of_nat (n div 10) = str_of_nat (m div 10)"
        and b: "digit (n mod 10) = digit (m mod 10)" by simp_all
      from 1(1)[OF n a] have q: "n div 10 = m div 10" .
      from b have r: "n mod 10 = m mod 10" by (intro digit_inj) simp_all
      from q r show ?thesis by (metis div_mult_mod_eq)
    qed
  qed
qed

lemma str_of_int_inj: "str_of_int i = str_of_int j \<Longrightarrow> i = j"
proof -
  assume e: "str_of_int i = str_of_int j"
  have hd_nat: "\<And>n. hd (str_of_nat n) \<noteq> CHR ''-''"
    using str_of_nat_digits str_of_nat_nonempty by (metis hd_in_set)
  show "i = j"
  proof (cases "i < 0")
    case i: True
    show ?thesis
    proof (cases "j < 0")
      case True
      with i e have "str_of_nat (nat (- i)) = str_of_nat (nat (- j))" by (simp add: str_of_int_def)
      then have "nat (- i) = nat (- j)" by (rule str_of_nat_inj)
      with i True show ?thesis by simp
    next
      case False
      with i e have "CHR ''-'' # str_of_nat (nat (- i)) = str_of_nat (nat j)" by (simp add: str_of_int_def)
      then have "hd (str_of_nat (nat j)) = CHR ''-''" by (metis list.sel(1))
      with hd_nat show ?thesis by blast
    qed
  next
    case i: False
    show ?thesis
    proof (cases "j < 0")
      case True
      with i e have "str_of_nat (nat i) = CHR ''-'' # str_of_nat (nat (- j))" by (simp add: str_of_int_def)
      then have "hd (str_of_nat (nat i)) = CHR ''-''" by (metis list.sel(1))
      with hd_nat show ?thesis by blast
    next
      case False
      with i e have "str_of_nat (nat i) = str_of_nat (nat j)" by (simp add: str_of_int_def)
      then have "nat i = nat j" by (rule str_of_nat_inj)
      with i False show ?thesis by simp
    qed
  qed
qed


section \<open>What the helper functions leave unchanged\<close>

lemma add_debug_log_fields [simp]:
  "messages (add_debug_log E m t s) = messages s"
  "session_id (add_debug_log E m t s) = session_id s"
  "connection_status (add_debug_log E m t s) = connection_status s"
  "post_calls (add_debug_log E m t s) = post_calls s"
  "shown (add_debug_log E m t s) = shown s"
  "clock_reads (add_debug_log E m t s) = Suc (clock_reads s)"
  "debug_logs (add_debug_log E m t s) =
     debug_logs s @ [\<lparr> log_time = strftime E ''%H:%M:%S'' (clock_reads s), log_type = t, log_message = m \<rparr>]"
  by (simp_all add: add_debug_log_def Let_def)

lemma call_try_messages: "messages (snd (call_mcp_tool_try E u t a s)) = messages s"
  by (simp add: call_mcp_tool_try_def Let_def split: http_outcome.splits sum.splits bool.splits)

lemma call_try_session_id: "session_id (snd (call_mcp_tool_try E u t a s)) = session_id s"
  by (simp add: call_mcp_tool_try_def Let_def split: http_outcome.splits sum.splits bool.splits)

lemma call_try_shown: "shown (snd (call_mcp_tool_try E u t a s)) = shown s"
  by (simp add: call_mcp_tool_try_def Let_def split: http_outcome.splits sum.splits bool.splits)

lemma call_try_post_calls:
  "post_calls (snd (call_mcp_tool_try E u t a s)) =
     post_calls s @ [(u, tools_call_body (time_ms E (clock_reads s)) t a, 30)]"
  by (simp add: call_mcp_tool_try_def Let_def split: http_outcome.splits sum.splits bool.splits)

lemma call_snd: "snd (call_mcp_tool E u t a s) = snd (call_mcp_tool_try E u t a s)"
  by (simp add: call_mcp_tool_def split: prod.splits sum.splits)

lemma call_try_raised:
  "http_post E u (tools_call_body (time_ms E (clock_reads s)) t a) 30 = Raised e \<Longrightarrow>
   fst (call_mcp_tool_try E u t a s) = Inl e"
  by (simp add: call_mcp_tool_try_def Let_def)

lemma call_try_raised_clock:
  "http_post E u (tools_call_body (time_ms E (clock_reads s)) t a) 30 = Raised e \<Longrightarrow>
   clock_reads (snd (call_mcp_tool_try E u t a s)) = clock_reads s + 3"
  by (simp add: call_mcp_tool_try_def Let_def)

lemma call_fst:
  "fst (call_mcp_tool E u t a s) =
     (case fst (call_mcp_tool_try E u t a s) of Inl e \<Rightarrow> Inl (call_mcp_tool_except e) | Inr v \<Rightarrow> Inr v)"
  by (simp add: call_mcp_tool_def split: prod.splits sum.splits)

lemma append_message_fields [simp]:
  "messages (append_message m s) = messages s @ [m]"
  "session_id (append_message m s) = session_id s"
  "post_calls (append_message m s) = post_calls s"
  "shown (append_message m s) = shown s"
  "clock_reads (append_message m s) = clock_reads s"
  "debug_logs (append_message m s) = debug_logs s"
  by (simp_all add: append_message_def)

section \<open>The chat turn\<close>

lemma chat_turn_post_calls:
  "post_calls (snd (chat_turn_try E cfg ui s)) =
     post_calls s @ [(server_url cfg,
        tools_call_body (time_ms E (clock_reads s)) (fst (chat_arguments cfg ui s)) (snd (chat_arguments cfg ui s)), 30)]"
proof -
  obtain tn ar where ca: "chat_arguments cfg ui s = (tn, ar)" by (cases "chat_arguments cfg ui s")
  obtain r s1 where c: "call_mcp_tool E (server_url cfg) tn ar s = (r, s1)"
    by (cases "call_mcp_tool E (server_url cfg) tn ar s")
  have p: "post_calls s1 = post_calls s @ [(server_url cfg, tools_call_body (time_ms E (clock_reads s)) tn ar, 30)]"
    using call_snd[of E "server_url cfg" tn ar s] call_try_post_calls[of E "server_url cfg" tn ar s] c by simp
  show ?thesis
    using p by (simp add: chat_turn_try_def ca c read_clock_IMp_def split: sum.splits prod.splits)
qed

lemma on_user_input_post_calls:
  assumes "ui \<noteq> []" and "server_url cfg \<noteq> []"
  shows "post_calls (on_user_input E cfg (Some ui) s) =
     post_calls s @ [(server_url cfg,
        tools_call_body (time_ms E (Suc (clock_reads s))) (fst (chat_arguments cfg ui s)) (snd (chat_arguments cfg ui s)), 30)]"
proof -
  let ?s2 = "append_message \<lparr> role = ''user'', content = JStr ui,
               timestamp = strftime E ''%I:%M %p'' (clock_reads s), is_error = None \<rparr>
               (s\<lparr> clock_reads := Suc (clock_reads s) \<rparr>)"
  have ca: "chat_arguments cfg ui ?s2 = chat_arguments cfg ui s"
    by (simp add: chat_arguments_def)
  have p: "post_calls (snd (chat_turn_try E cfg ui ?s2)) =
     post_calls s @ [(server_url cfg,
        tools_call_body (time_ms E (Suc (clock_reads s))) (fst (chat_arguments cfg ui s)) (snd (chat_arguments cfg ui s)), 30)]"
    by (simp add: chat_turn_post_calls ca)
  obtain r s3 where t: "chat_turn_try E cfg ui ?s2 = (r, s3)" by (cases "chat_turn_try E cfg ui ?s2")
  show ?thesis
    using assms p t
    by (simp add: on_user_input_def read_clock_IMp_def split: sum.splits)
qed


lemma chat_turn_raised:
  assumes "http_post E (server_url cfg)
             (tools_call_body (time_ms E (clock_reads s)) (fst (chat_arguments cfg ui s))
                (snd (chat_arguments cfg ui s))) 30 = Raised e"
  shows "chat_turn_try E cfg ui s =
           (Inl (call_mcp_tool_except e),
            snd (call_mcp_tool_try E (server_url cfg) (fst (chat_arguments cfg ui s))
                   (snd (chat_arguments cfg ui s)) s))"
proof -
  obtain tn ar where ca: "chat_arguments cfg ui s = (tn, ar)" by (cases "chat_arguments cfg ui s")
  from assms ca have r: "http_post E (server_url cfg) (tools_call_body (time_ms E (clock_reads s)) tn ar) 30 = Raised e"
    by simp
  have f: "fst (call_mcp_tool E (server_url cfg) tn ar s) = Inl (call_mcp_tool_except e)"
    by (simp add: call_fst call_try_raised[OF r])
  have "call_mcp_tool E (server_url cfg) tn ar s =
          (Inl (call_mcp_tool_except e), snd (call_mcp_tool_try E (server_url cfg) tn ar s))"
    using f call_snd[of E "server_url cfg" tn ar s] by (metis prod.collapse)
  then show ?thesis by (simp add: chat_turn_try_def ca)
qed

text \<open>
  Claim C4. In a turn with a non-empty input and a non-empty server URL in which
  \<^verbatim>\<open>requests.post\<close> raises a timeout (\<^verbatim>\<open>Timeout\<close> or its subclass \<^verbatim>\<open>ConnectTimeout\<close>), the
  message log grows by the user message followed by exactly one assistant message, with
  \<^verbatim>\<open>is_error\<close> True and the content
  \<^verbatim>\<open>"Error: Request timed out. The server took too long to respond.\n\nPlease check your server URL and API keys."\<close>.
\<close>

theorem timeout_turn:
  assumes "user_input \<noteq> []" and "server_url cfg \<noteq> []"
    and "http_post E (server_url cfg)
           (tools_call_body (time_ms E (Suc (clock_reads s))) (fst (chat_arguments cfg user_input s))
              (snd (chat_arguments cfg user_input s))) 30 = Raised e"
    and "is_Timeout e"
  shows "messages (on_user_input E cfg (Some user_input) s) =
           messages s @
           [\<lparr> role = ''user'', content = JStr user_input,
              timestamp = strftime E ''%I:%M %p'' (clock_reads s), is_error = None \<rparr>,
            \<lparr> role = ''assistant'',
              content = JStr (''Error: Request timed out. The server took too long to respond.''
                              @ [CHR 0x0A, CHR 0x0A] @ ''Please check your server URL and API keys.''),
              timestamp = strftime E ''%I:%M %p'' (clock_reads s + 4), is_error = Some True \<rparr>]"
proof -
  let ?s2 = "append_message \<lparr> role = ''user'', content = JStr user_input,
               timestamp = strftime E ''%I:%M %p'' (clock_reads s), is_error = None \<rparr>
               (s\<lparr> clock_reads := Suc (clock_reads s) \<rparr>)"
  let ?tn = "fst (chat_arguments cfg user_input s)"
  let ?ar = "snd (chat_arguments cfg user_input s)"
  let ?s3 = "snd (call_mcp_tool_try E (server_url cfg) ?tn ?ar ?s2)"
  have ca: "chat_arguments cfg user_input ?s2 = chat_arguments cfg user_input s"
    by (simp add: chat_arguments_def)
  have r: "http_post E (server_url cfg) (tools_call_body (time_ms E (clock_reads ?s2)) ?tn ?ar) 30 = Raised e"
    using assms(3) by simp
  have t: "chat_turn_try E cfg user_input ?s2 = (Inl (call_mcp_tool_except e), ?s3)"
    using chat_turn_raised[of E cfg ?s2 user_input e] r ca by simp
  have m: "messages ?s3 = messages ?s2" by (rule call_try_messages)
  have c: "clock_reads ?s3 = clock_reads s + 4"
    using call_try_raised_clock[OF r] by simp
  have x: "call_mcp_tool_except e =
             Exn PlainException ''Request timed out. The server took too long to respond.''"
    using assms(4) by (simp add: call_mcp_tool_except_def)
  show ?thesis
    using assms(1,2) m c
    by (simp add: on_user_input_def read_clock_IMp_def t x error_content_def)
qed

theorem timeout_turn_witness:
  "''hi'' \<noteq> [] \<and> server_url (demo_config ''http://mcp'' True) \<noteq> []
   \<and> is_Timeout (Exn ReadTimeout ''read timed out'')
   \<and> map content (messages (on_user_input (demo_env ticking (Raised (Exn ReadTimeout ''read timed out'')))
                   (demo_config ''http://mcp'' True) (Some ''hi'')
                   (initial_state (demo_env ticking (Raised (Exn ReadTimeout ''read timed out''))))))
     = [JStr ''hi'',
        JStr (''Error: Request timed out. The server took too long to respond.''
              @ [CHR 0x0A, CHR 0x0A] @ ''Please check your server URL and API keys.'')]"
  using timeout_turn [of "''hi''" "demo_config ''http://mcp'' True"
      "demo_env ticking (Raised (Exn ReadTimeout ''read timed out''))"
      "initial_state (demo_env ticking (Raised (Exn ReadTimeout ''read timed out'')))"
      "Exn ReadTimeout ''read timed out''"]
  by (simp add: demo_config_def demo_env_def initial_state_def)

text \<open>
  Claim C1. For every non-empty input processed with a non-empty server URL, the turn makes
  exactly one call of \<^verbatim>\<open>requests.post\<close>, to the server URL with timeout 30, whose body has
  method \<^verbatim>\<open>tools/call\<close>; with memory on, the tool name is \<^verbatim>\<open>conversation_with_memory\<close> and
  the arguments are message, sessionId (the current session id) and provider; with memory
  off, the tool name is \<^verbatim>\<open>chat\<close> and the arguments are message, provider and model, with
  no sessionId.
\<close>

theorem tool_selection:
  assumes "user_input \<noteq> []" and "server_url cfg \<noteq> []"
  shows "post_calls (on_user_input E cfg (Some user_input) s) =
           post_calls s @
           [(server_url cfg,
             JObj [(''jsonrpc'', JStr ''2.0''),
                   (''id'', JNum (time_ms E (Suc (clock_reads s)))),
                   (''method'', JStr ''tools/call''),
                   (''params'',
                    JObj [(''name'', JStr (if use_memory cfg then ''conversation_with_memory'' else ''chat'')),
                          (''arguments'',
                           if use_memory cfg then
                             JObj [(''message'', JStr user_input),
                                   (''sessionId'', JStr (session_id s)),
                                   (''provider'', JStr (provider_str (provider cfg)))]
                           else
                             JObj [(''message'', JStr user_input),
                                   (''provider'', JStr (provider_str (provider cfg))),
                                   (''model'', JStr (model cfg))])])],
             30)]"
  using on_user_input_post_calls[OF assms, of E s]
  by (simp add: tools_call_body_def chat_arguments_def)

theorem tool_selection_witness:
  "''hi'' \<noteq> [] \<and> server_url (demo_config ''http://mcp'' True) \<noteq> []
   \<and> post_calls (on_user_input (demo_env ticking (Raised (Exn ReadTimeout ''read timed out'')))
                   (demo_config ''http://mcp'' True) (Some ''hi'')
                   (initial_state (demo_env ticking (Raised (Exn ReadTimeout ''read timed out'')))))
     = [(''http://mcp'',
         JObj [(''jsonrpc'', JStr ''2.0''),
               (''id'', JNum 1700000000002),
               (''method'', JStr ''tools/call''),
               (''params'',
                JObj [(''name'', JStr ''conversation_with_memory''),
                      (''arguments'',
                       JObj [(''message'', JStr ''hi''),
                             (''sessionId'', JStr ''session-1700000000000''),
                             (''provider'', JStr ''openai'')])])],
         30)]"
  using tool_selection [of "''hi''" "demo_config ''http://mcp'' True"
      "demo_env ticking (Raised (Exn ReadTimeout ''read timed out''))"
      "initial_state (demo_env ticking (Raised (Exn ReadTimeout ''read timed out'')))"]
  by (simp add: demo_config_def demo_env_def initial_state_def ticking_def str_of_int_def
        str_of_nat.simps digit_def)

text \<open>
  Claim C5. A non-empty input submitted while the server URL is empty appends no message,
  makes no call of \<^verbatim>\<open>requests.post\<close>, writes no debug log entry, and shows the validation
  notice with \<^verbatim>\<open>st.error\<close>. (\<^verbatim>\<open>st.chat_input\<close> never submits an empty input.)
\<close>

theorem empty_url_rejected:
  assumes "user_input \<noteq> []" and "server_url cfg = []"
  shows "messages (on_user_input E cfg (Some user_input) s) = messages s
       \<and> post_calls (on_user_input E cfg (Some user_input) s) = post_calls s
       \<and> debug_logs (on_user_input E cfg (Some user_input) s) = debug_logs s
       \<and> shown (on_user_input E cfg (Some user_input) s) = shown s @ [StError validation_text]"
  using assms by (simp add: on_user_input_def)

theorem empty_url_rejected_witness:
  "''hi'' \<noteq> [] \<and> server_url (demo_config [] True) = []
   \<and> messages (on_user_input (demo_env ticking (Raised (Exn ReadTimeout ''read timed out'')))
                 (demo_config [] True) (Some ''hi'')
                 (initial_state (demo_env ticking (Raised (Exn ReadTimeout ''read timed out''))))) = []
   \<and> post_calls (on_user_input (demo_env ticking (Raised (Exn ReadTimeout ''read timed out'')))
                 (demo_config [] True) (Some ''hi'')
                 (initial_state (demo_env ticking (Raised (Exn ReadTimeout ''read timed out''))))) = []
   \<and> shown (on_user_input (demo_env ticking (Raised (Exn ReadTimeout ''read timed out'')))
                 (demo_config [] True) (Some ''hi'')
                 (initial_state (demo_env ticking (Raised (Exn ReadTimeout ''read timed out''))))) =
       [StError validation_text]"
  using empty_url_rejected [of "''hi''" "demo_config [] True"
      "demo_env ticking (Raised (Exn ReadTimeout ''read timed out''))"
      "initial_state (demo_env ticking (Raised (Exn ReadTimeout ''read timed out'')))"]
  by (simp add: demo_config_def initial_state_def)

section \<open>The debug log view\<close>

lemma add_debug_logs_messages:
  "map log_message (debug_logs (add_debug_logs E entries s)) =
     map log_message (debug_logs s) @ map fst entries"
  unfolding add_debug_logs_def
  by (induction entries arbitrary: s) (simp_all add: case_prod_beta)

text \<open>
  Claim C8. After any sequence of appends to the debug log, from any state, the debug view
  has at most 20 entries: it is the last 20 entries of the log (all of them when there are
  fewer), in the order of the log, and the log holds the appended messages in the order
  they were appended. The lines the debug section writes are the renderings of the view,
  so they are at most 20 too.
\<close>

theorem debug_view_bounded:
  "length (debug_view (add_debug_logs E entries s)) \<le> 20
   \<and> debug_view (add_debug_logs E entries s) =
       drop (length (debug_logs (add_debug_logs E entries s)) - 20) (debug_logs (add_debug_logs E entries s))
   \<and> suffix (debug_view (add_debug_logs E entries s)) (debug_logs (add_debug_logs E entries s))
   \<and> map log_message (debug_logs (add_debug_logs E entries s)) =
       map log_message (debug_logs s) @ map fst entries
   \<and> fst (debug_section cfg pressed (add_debug_logs E entries s)) =
       (if show_debug cfg \<and> debug_logs (add_debug_logs E entries s) \<noteq> [] \<and> \<not> pressed
        then map render_log (debug_view (add_debug_logs E entries s)) else [])
   \<and> length (fst (debug_section cfg pressed (add_debug_logs E entries s))) \<le> 20"
proof -
  let ?s = "add_debug_logs E entries s"
  have a: "length (debug_view ?s) \<le> 20" by (simp add: debug_view_def last_n_def)
  have b: "suffix (debug_view ?s) (debug_logs ?s)"
    by (simp add: debug_view_def last_n_def suffix_drop)
  have c: "fst (debug_section cfg pressed ?s) =
       (if show_debug cfg \<and> debug_logs ?s \<noteq> [] \<and> \<not> pressed
        then map render_log (debug_view ?s) else [])"
    by (simp add: debug_section_def)
  have d: "length (fst (debug_section cfg pressed ?s)) \<le> 20"
    using a by (simp add: c)
  show ?thesis
    using a b c d add_debug_logs_messages[of E entries s]
    by (simp add: debug_view_def last_n_def)
qed

section \<open>New Session\<close>

text \<open>
  Claim C6, as stated, fails: the new session id is the millisecond reading of the wall
  clock, so a reset that reads the millisecond the current id was made from leaves the id
  unchanged.
\<close>

theorem new_session_counterexample:
  "\<not> (messages (on_new_session (demo_env frozen_clock no_server) (initial_state (demo_env frozen_clock no_server))) = []
      \<and> session_id (on_new_session (demo_env frozen_clock no_server) (initial_state (demo_env frozen_clock no_server)))
          \<noteq> session_id (initial_state (demo_env frozen_clock no_server)))"
  by (simp add: on_new_session_def initial_state_def demo_env_def frozen_clock_def)

text \<open>
  Claim C6, amended. The New Session action leaves the message log empty and sets the
  session id to \<^verbatim>\<open>session-\<close> followed by the current wall-clock time in milliseconds; the
  new id differs from the previous one whenever the previous one was made from a different
  millisecond reading.
\<close>

theorem new_session:
  "messages (on_new_session E s) = []
   \<and> session_id (on_new_session E s) = ''session-'' @ str_of_int (time_ms E (clock_reads s))
   \<and> (session_id s = ''session-'' @ str_of_int t \<and> t \<noteq> time_ms E (clock_reads s)
        \<longrightarrow> session_id (on_new_session E s) \<noteq> session_id s)"
proof -
  have "t \<noteq> time_ms E (clock_reads s) \<Longrightarrow> str_of_int (time_ms E (clock_reads s)) \<noteq> str_of_int t"
    using str_of_int_inj by blast
  then show ?thesis by (simp add: on_new_session_def)
qed

theorem new_session_witness:
  "session_id (initial_state (demo_env ticking no_server)) = ''session-'' @ str_of_int 1700000000000
   \<and> 1700000000000 \<noteq> time_ms (demo_env ticking no_server) (clock_reads (initial_state (demo_env ticking no_server)))
   \<and> messages (on_new_session (demo_env ticking no_server) (initial_state (demo_env ticking no_server))) = []
   \<and> session_id (on_new_session (demo_env ticking no_server) (initial_state (demo_env ticking no_server)))
        \<noteq> session_id (initial_state (demo_env ticking no_server))"
proof -
  have h1: "session_id (initial_state (demo_env ticking no_server)) = ''session-'' @ str_of_int 1700000000000"
    by (simp add: initial_state_def demo_env_def ticking_def)
  have h2: "1700000000000 \<noteq> time_ms (demo_env ticking no_server) (clock_reads (initial_state (demo_env ticking no_server)))"
    by (simp add: initial_state_def demo_env_def ticking_def)
  from new_session [of "demo_env ticking no_server" "initial_state (demo_env ticking no_server)" 1700000000000] h1 h2
  show ?thesis by blast
qed

section \<open>The connection test\<close>

lemma tc_fst:
  "fst (test_connection E url s) =
     (case fst (test_connection_try E url s) of Inl e \<Rightarrow> (False, exn_str e) | Inr r \<Rightarrow> r)"
  by (simp add: test_connection_def split: prod.splits sum.splits)

lemma tc_try_raised:
  "http_post E url initialize_body 10 = Raised e \<Longrightarrow> fst (test_connection_try E url s) = Inl e"
  by (simp add: test_connection_try_def Let_def)

lemma tc_try_unparsed:
  "http_post E url initialize_body 10 = Responded r \<Longrightarrow> parsed r = Inl e \<Longrightarrow>
   fst (test_connection_try E url s) = Inl e"
  by (simp add: test_connection_try_def Let_def)

lemma tc_try_error_message:
  "http_post E url initialize_body 10 = Responded r \<Longrightarrow>
   parsed r = Inr (JObj kvs) \<Longrightarrow> map_of kvs ''error'' = Some (JObj ekvs) \<Longrightarrow>
   fst (test_connection_try E url s) =
     Inr (False, ''Server error: '' @
            py_str (lib E) (case map_of ekvs ''message'' of None \<Rightarrow> JStr ''Unknown error'' | Some m \<Rightarrow> m))"
proof -
  assume p: "http_post E url initialize_body 10 = Responded r"
    and d: "parsed r = Inr (JObj kvs)" and e: "map_of kvs ''error'' = Some (JObj ekvs)"
  from e have "(''error'', JObj ekvs) \<in> set kvs" by (rule map_of_SomeD)
  then have i: "''error'' \<in> fst ` set kvs" by force
  show ?thesis
    using p d e i by (simp add: test_connection_try_def Let_def)
qed


text \<open>
  Claim C7. \<^verbatim>\<open>test_connection\<close> always returns a pair of a success flag and a message:
  every exception that leaves its \<^verbatim>\<open>try\<close> block is caught and gives
  \<^verbatim>\<open>(False, str(e))\<close>. A transport failure gives (False, its message), a body that is not
  JSON gives (False, the decoder's message), and the response
  \<^verbatim>\<open>{"error":{"message":"bad key"}}\<close> gives \<^verbatim>\<open>(False, "Server error: bad key")\<close>.
\<close>

theorem test_connection_never_raises:
  "fst (test_connection E url s) =
     (case fst (test_connection_try E url s) of Inl e \<Rightarrow> (False, exn_str e) | Inr r \<Rightarrow> r)
   \<and> (http_post E url initialize_body 10 = Raised e \<longrightarrow>
        fst (test_connection E url s) = (False, exn_str e))
   \<and> (http_post E url initialize_body 10 = Responded r \<and> parsed r = Inl e \<longrightarrow>
        fst (test_connection E url s) = (False, exn_str e))
   \<and> (http_post E url initialize_body 10 = Responded r
        \<and> parsed r = Inr (JObj [(''error'', JObj [(''message'', JStr ''bad key'')])]) \<longrightarrow>
        fst (test_connection E url s) = (False, ''Server error: bad key''))"
  using tc_try_error_message[of E url r "[(''error'', JObj [(''message'', JStr ''bad key'')])]"
      "[(''message'', JStr ''bad key'')]" s]
  by (simp add: tc_fst tc_try_raised tc_try_unparsed)

theorem test_connection_never_raises_witness:
  "http_post (demo_env ticking no_server) ''http://mcp'' initialize_body 10
     = Raised (Exn ConnectionError ''connection refused'')
   \<and> fst (test_connection (demo_env ticking no_server) ''http://mcp''
            (initial_state (demo_env ticking no_server))) = (False, ''connection refused'')
   \<and> http_post (demo_env ticking bad_key_response) ''http://mcp'' initialize_body 10
       = Responded \<lparr> status_code = 200, body_text = ''(body)'',
                     parsed = Inr (JObj [(''error'', JObj [(''message'', JStr ''bad key'')])]) \<rparr>
   \<and> fst (test_connection (demo_env ticking bad_key_response) ''http://mcp''
            (initial_state (demo_env ticking bad_key_response))) = (False, ''Server error: bad key'')"
proof -
  have h1: "http_post (demo_env ticking no_server) ''http://mcp'' initialize_body 10
              = Raised (Exn ConnectionError ''connection refused'')"
    by (simp add: demo_env_def no_server_def)
  have h2: "http_post (demo_env ticking bad_key_response) ''http://mcp'' initialize_body 10
       = Responded \<lparr> status_code = 200, body_text = ''(body)'',
                     parsed = Inr (JObj [(''error'', JObj [(''message'', JStr ''bad key'')])]) \<rparr>"
    by (simp add: demo_env_def bad_key_response_def json_response_def)
  have a: "fst (test_connection (demo_env ticking no_server) ''http://mcp''
            (initial_state (demo_env ticking no_server))) = (False, ''connection refused'')"
    using test_connection_never_raises [where E = "demo_env ticking no_server" and url = "''http://mcp''"
      and s = "initial_state (demo_env ticking no_server)" and e = "Exn ConnectionError ''connection refused''",
      THEN conjunct2, THEN conjunct1, THEN mp, OF h1]
    by simp
  have b: "fst (test_connection (demo_env ticking bad_key_response) ''http://mcp''
            (initial_state (demo_env ticking bad_key_response))) = (False, ''Server error: bad key'')"
    using test_connection_never_raises [where E = "demo_env ticking bad_key_response" and url = "''http://mcp''"
      and s = "initial_state (demo_env ticking bad_key_response)"
      and r = "\<lparr> status_code = 200, body_text = ''(body)'',
         parsed = Inr (JObj [(''error'', JObj [(''message'', JStr ''bad key'')])]) \<rparr>",
      THEN conjunct2, THEN conjunct2, THEN conjunct2, THEN mp] h2
    by simp
  from h1 h2 a b show ?thesis by blast
qed




section \<open>The status code\<close>






section \<open>What the transport writes to the debug log\<close>











section \<open>A server error in a chat turn\<close>

text \<open>
  Claim C3 at the response \<^verbatim>\<open>{"error":{"message":"bad key"}}\<close>: the exception raised for
  the server's error is raised inside the \<^verbatim>\<open>try\<close> block of \<^verbatim>\<open>call_mcp_tool\<close>, so the last
  \<^verbatim>\<open>except\<close> clause catches it and raises it again with \<^verbatim>\<open>Error:\<close> in front; the chat turn
  puts \<^verbatim>\<open>Error:\<close> in front once more. The error carried is \<^verbatim>\<open>Error: bad key\<close> and the
  content of the assistant message starts with \<^verbatim>\<open>Error: Error: bad key\<close>.
\<close>

theorem remote_error_prefixed_twice:
  "fst (call_mcp_tool (demo_env ticking bad_key_response) ''http://mcp'' ''conversation_with_memory''
          (JObj [(''message'', JStr ''hi'')]) (initial_state (demo_env ticking bad_key_response)))
     = Inl (Exn PlainException ''Error: bad key'')
   \<and> map content (messages (on_user_input (demo_env ticking bad_key_response)
          (demo_config ''http://mcp'' True) (Some ''hi'') (initial_state (demo_env ticking bad_key_response))))
     = [JStr ''hi'',
        JStr (''Error: Error: bad key'' @ [CHR 0x0A, CHR 0x0A] @ ''Please check your server URL and API keys.'')]
   \<and> map is_error (messages (on_user_input (demo_env ticking bad_key_response)
          (demo_config ''http://mcp'' True) (Some ''hi'') (initial_state (demo_env ticking bad_key_response))))
     = [None, Some True]"
  by (simp add: on_user_input_def read_clock_IMp_def append_message_def chat_turn_try_def chat_arguments_def
        call_mcp_tool_def call_mcp_tool_try_def call_mcp_tool_except_def error_content_def Let_def
        add_debug_log_def demo_env_def demo_config_def bad_key_response_def json_response_def initial_state_def)

end
